theory Spec2Isabelle
  imports Main "HOL-Library.List_Lexorder" "HOL-Library.Product_Lexorder" "HOL-Library.AList"
begin

section \<open>Data model of \<^verbatim>\<open>puresnmp/api/raw.py\<close>\<close>

text \<open>
  An object identifier is the tuple of its sub-identifiers. The functions of
  \<^verbatim>\<open>raw.py\<close> take OIDs as dotted strings and parse them with \<^verbatim>\<open>OID(...)\<close>; the model
  starts from the parsed tuple, so \<^verbatim>\<open>OID(s)\<close> and \<^verbatim>\<open>unicode(oid)\<close> are both the identity.
  A \<^verbatim>\<open>VarBind\<close> is the named tuple \<^verbatim>\<open>(oid, value)\<close>; the type of values \<open>'v\<close> is left open.
\<close>

type_synonym oid = "nat list"

type_synonym 'v varbind = "oid \<times> 'v"

text \<open>
  Modelled from the spec: \<^verbatim>\<open>ObjectIdentifier.__lt__\<close> (module \<^verbatim>\<open>x690.types\<close>) is not part of
  the sources. The spec says "Ordering is lexicographic"; this is the order of
  \<open>HOL-Library.List_Lexorder\<close> on \<open>nat list\<close>, which is also how Python compares tuples.
\<close>

definition oid_less :: "oid \<Rightarrow> oid \<Rightarrow> bool" where
  "oid_less a b = (a < b)"

text \<open>
  Modelled from the spec: \<^verbatim>\<open>ObjectIdentifier.__contains__\<close> (module \<^verbatim>\<open>x690.types\<close>) is not part
  of the sources. The spec says a base contains an OID iff the sub-identifier sequence of
  the base is a strict prefix of the OID. \<open>oid_in a b\<close> is Python's \<^verbatim>\<open>a in b\<close>.
\<close>

definition oid_in :: "oid \<Rightarrow> oid \<Rightarrow> bool" where
  "oid_in a b = (length b < length a \<and> take (length b) a = b)"

text \<open>The exceptions that \<^verbatim>\<open>raw.py\<close> raises, catches or lets through.\<close>

datatype error =
    SnmpError
  | NoSuchOID
  | FaultySNMPImplementation
  | TypeError
  | KeyError
  | IndexError
  | Timeout

text \<open>
  The request PDUs as \<^verbatim>\<open>raw.py\<close> constructs them: the first argument is always the
  request id; \<^verbatim>\<open>BulkGetRequest\<close> also carries \<^verbatim>\<open>non_repeaters\<close> and \<^verbatim>\<open>max_list_size\<close>.
\<close>

datatype 'v pdu =
    GetRequest int "oid list"
  | GetNextRequest int "oid list"
  | SetRequest int "'v varbind list"
  | BulkGetRequest int int int "oid list"

text \<open>
  Modelled from the spec: the constant \<^verbatim>\<open>Version.V2C\<close> (module \<^verbatim>\<open>const\<close>) is not part of the
  sources; the spec fixes the version field at 1.
\<close>

definition V2C :: int where
  "V2C = 1"

text \<open>The envelope \<^verbatim>\<open>Sequence(Integer(Version.V2C), OctetString(community), pdu)\<close>.\<close>

record 'v packet =
  pkt_version :: int
  pkt_community :: string
  pkt_pdu :: "'v pdu"

text \<open>
  The part of a decoded reply that \<^verbatim>\<open>raw.py\<close> reads: \<^verbatim>\<open>raw_response[2]\<close> is the response
  PDU, with its request id and its \<^verbatim>\<open>varbinds\<close>.
\<close>

record 'v response =
  request_id :: int
  varbinds :: "'v varbind list"

text \<open>
  The collaborators imported from \<^verbatim>\<open>puresnmp.transport\<close> and \<^verbatim>\<open>puresnmp.x690\<close> are
  parameters of the model, over a state \<open>'s\<close> of the world (the request-id source and the
  remote agent). \<open>get_request_id\<close> is \<^verbatim>\<open>get_request_id()\<close>. \<open>send N ip port packet timeout\<close>
  is \<^verbatim>\<open>Sequence.from_bytes(send(ip, port, to_bytes(packet), timeout=timeout))\<close>: it returns
  the decoded reply, or the exception that the transport or the decoder raised.
\<close>

record ('v, 's) net =
  get_request_id :: "'s \<Rightarrow> int \<times> 's"
  send :: "string \<Rightarrow> int \<Rightarrow> 'v packet \<Rightarrow> int \<Rightarrow> 's \<Rightarrow> (error + 'v response) \<times> 's"

text \<open>
  A Python \<^verbatim>\<open>dict\<close> (and an \<^verbatim>\<open>OrderedDict\<close>) filled from a list of pairs: a key that comes
  again keeps its position and takes the new value.
\<close>

definition py_dict :: "('k \<times> 'a) list \<Rightarrow> ('k \<times> 'a) list" where
  "py_dict kvs = foldl (\<lambda>d kv. AList.update (fst kv) (snd kv) d) [] kvs"

section \<open>The operation engine\<close>

text \<open>\<^verbatim>\<open>multiget(ip, community, oids, port=161, timeout=2)\<close>\<close>

definition multiget ::
  "('v, 's) net \<Rightarrow> string \<Rightarrow> string \<Rightarrow> oid list \<Rightarrow> int \<Rightarrow> int \<Rightarrow> 's \<Rightarrow> (error + 'v list) \<times> 's"
where
  "multiget N ip community oids port timeout s =
     (case get_request_id N s of (rid, s1) \<Rightarrow>
      (case send N ip port
             \<lparr>pkt_version = V2C, pkt_community = community, pkt_pdu = GetRequest rid oids\<rparr>
             timeout s1 of
         (Inl e, s2) \<Rightarrow> (Inl e, s2)
       | (Inr raw_response, s2) \<Rightarrow>
           (let output = map snd (varbinds raw_response) in
            if length output \<noteq> length oids then (Inl SnmpError, s2)
            else (Inr output, s2))))"

text \<open>\<^verbatim>\<open>get(ip, community, oid, port=161, timeout=2)\<close>: element 0 of \<^verbatim>\<open>multiget\<close>'s list.\<close>

definition get ::
  "('v, 's) net \<Rightarrow> string \<Rightarrow> string \<Rightarrow> oid \<Rightarrow> int \<Rightarrow> int \<Rightarrow> 's \<Rightarrow> (error + 'v) \<times> 's"
where
  "get N ip community oid port timeout s =
     (case multiget N ip community [oid] port timeout s of
        (Inl e, s') \<Rightarrow> (Inl e, s')
      | (Inr output, s') \<Rightarrow>
          (case output of
             [] \<Rightarrow> (Inl IndexError, s')
           | x # rest \<Rightarrow> (Inr x, s')))"

text \<open>\<^verbatim>\<open>multigetnext(ip, community, oids, port=161, timeout=2)\<close>\<close>

definition multigetnext ::
  "('v, 's) net \<Rightarrow> string \<Rightarrow> string \<Rightarrow> oid list \<Rightarrow> int \<Rightarrow> int \<Rightarrow> 's \<Rightarrow>
     (error + 'v varbind list) \<times> 's"
where
  "multigetnext N ip community oids port timeout s =
     (case get_request_id N s of (rid, s1) \<Rightarrow>
      (case send N ip port
             \<lparr>pkt_version = V2C, pkt_community = community, pkt_pdu = GetNextRequest rid oids\<rparr>
             timeout s1 of
         (Inl e, s2) \<Rightarrow> (Inl e, s2)
       | (Inr raw_response, s2) \<Rightarrow>
           (if length (varbinds raw_response) \<noteq> length oids then (Inl SnmpError, s2)
            else
              (let output = varbinds raw_response in
               if list_all (\<lambda>(requested, retrieved). oid_less requested (fst retrieved))
                    (zip oids output)
               then (Inr output, s2)
               else (Inl FaultySNMPImplementation, s2)))))"

text \<open>\<^verbatim>\<open>getnext(ip, community, oid, port=161, timeout=2)\<close>\<close>

definition getnext ::
  "('v, 's) net \<Rightarrow> string \<Rightarrow> string \<Rightarrow> oid \<Rightarrow> int \<Rightarrow> int \<Rightarrow> 's \<Rightarrow> (error + 'v varbind) \<times> 's"
where
  "getnext N ip community oid port timeout s =
     (case multigetnext N ip community [oid] port timeout s of
        (Inl e, s') \<Rightarrow> (Inl e, s')
      | (Inr output, s') \<Rightarrow>
          (case output of
             [] \<Rightarrow> (Inl IndexError, s')
           | x # rest \<Rightarrow> (Inr x, s')))"

text \<open>
  A value handed to \<^verbatim>\<open>multiset\<close>: an instance of \<^verbatim>\<open>Type\<close>, or any other Python object
  (for which \<^verbatim>\<open>isinstance(v, Type)\<close> is false).
\<close>

datatype 'v value_arg = Typed 'v | Untyped

fun is_Type :: "'v value_arg \<Rightarrow> bool" where
  "is_Type (Typed v) = True"
| "is_Type Untyped = False"

text \<open>\<^verbatim>\<open>binds = [VarBind(OID(k), v) for k, v in mappings]\<close>, for values that passed the check.\<close>

definition make_binds :: "(oid \<times> 'v value_arg) list \<Rightarrow> 'v varbind list" where
  "make_binds mappings =
     concat (map (\<lambda>(k, v). case v of Typed x \<Rightarrow> [(k, x)] | Untyped \<Rightarrow> []) mappings)"

text \<open>\<^verbatim>\<open>multiset(ip, community, mappings, port=161, timeout=2)\<close>; the result is a dict.\<close>

definition multiset ::
  "('v, 's) net \<Rightarrow> string \<Rightarrow> string \<Rightarrow> (oid \<times> 'v value_arg) list \<Rightarrow> int \<Rightarrow> int \<Rightarrow> 's \<Rightarrow>
     (error + (oid \<times> 'v) list) \<times> 's"
where
  "multiset N ip community mappings port timeout s =
     (if list_ex (\<lambda>(k, v). \<not> is_Type v) mappings then (Inl TypeError, s)
      else
        (let binds = make_binds mappings in
         case get_request_id N s of (rid, s1) \<Rightarrow>
         (case send N ip port
                \<lparr>pkt_version = V2C, pkt_community = community, pkt_pdu = SetRequest rid binds\<rparr>
                timeout s1 of
            (Inl e, s2) \<Rightarrow> (Inl e, s2)
          | (Inr raw_response, s2) \<Rightarrow>
              (let output = py_dict (varbinds raw_response) in
               if length output \<noteq> length mappings then (Inl SnmpError, s2)
               else (Inr output, s2)))))"

text \<open>
  \<^verbatim>\<open>set(ip, community, oid, value, port=161, timeout=2)\<close>: \<^verbatim>\<open>result[oid]\<close> raises
  \<^verbatim>\<open>KeyError\<close> when the agent answered for another OID.
\<close>

definition set_oid ::
  "('v, 's) net \<Rightarrow> string \<Rightarrow> string \<Rightarrow> oid \<Rightarrow> 'v value_arg \<Rightarrow> int \<Rightarrow> int \<Rightarrow> 's \<Rightarrow>
     (error + 'v) \<times> 's"
where
  "set_oid N ip community oid v port timeout s =
     (case multiset N ip community [(oid, v)] port timeout s of
        (Inl e, s') \<Rightarrow> (Inl e, s')
      | (Inr result, s') \<Rightarrow>
          (case map_of result oid of
             None \<Rightarrow> (Inl KeyError, s')
           | Some x \<Rightarrow> (Inr x, s')))"

text \<open>\<^verbatim>\<open>BulkResult(scalars, listing)\<close>: a dict and an \<^verbatim>\<open>OrderedDict\<close>.\<close>

record 'v BulkResult =
  scalars :: "(oid \<times> 'v) list"
  listing :: "(oid \<times> 'v) list"

text \<open>
  \<^verbatim>\<open>bulkget(ip, community, scalar_oids, repeating_oids, max_list_size=1, port=161, timeout=2)\<close>.
  The lengths are Python integers, so the bound \<open>n + m * r\<close> is computed in \<open>int\<close>
  (\<open>max_list_size\<close> may be negative).
  The two arguments are lists, which \<^verbatim>\<open>scalar_oids or []\<close> and
  \<^verbatim>\<open>repeating_oids or []\<close> leave as they are.
\<close>

definition bulkget ::
  "('v, 's) net \<Rightarrow> string \<Rightarrow> string \<Rightarrow> oid list \<Rightarrow> oid list \<Rightarrow> int \<Rightarrow> int \<Rightarrow> int \<Rightarrow> 's \<Rightarrow>
     (error + 'v BulkResult) \<times> 's"
where
  "bulkget N ip community scalar_oids repeating_oids max_list_size port timeout s =
     (let oids = scalar_oids @ repeating_oids;
          non_repeaters = int (length scalar_oids) in
      case get_request_id N s of (rid, s1) \<Rightarrow>
      (case send N ip port
             \<lparr>pkt_version = V2C, pkt_community = community,
              pkt_pdu = BulkGetRequest rid non_repeaters max_list_size oids\<rparr>
             timeout s1 of
         (Inl e, s2) \<Rightarrow> (Inl e, s2)
       | (Inr raw_response, s2) \<Rightarrow>
           (let n = min non_repeaters (int (length oids));
                m = max_list_size;
                r = max (int (length oids) - n) 0;
                expected_max_varbinds = n + (m * r) in
            if int (length (varbinds raw_response)) > expected_max_varbinds
            then (Inl SnmpError, s2)
            else
              (let scalar_tmp = take (length scalar_oids) (varbinds raw_response);
                   repeating_tmp = drop (length scalar_oids) (varbinds raw_response) in
               (Inr \<lparr>scalars = py_dict scalar_tmp, listing = py_dict repeating_tmp\<rparr>, s2)))))"

section \<open>The walk engine\<close>

text \<open>
  \<^verbatim>\<open>multiwalk\<close> is a generator. A run of it is recorded as the list of its observable
  events in order: every call of the fetcher (with the OIDs asked for), every \<^verbatim>\<open>yield\<close>,
  and every \<^verbatim>\<open>LOG.warning\<close> (with its arguments \<^verbatim>\<open>ip, next_fetches_str, exc\<close>);
  \<^verbatim>\<open>LOG.debug\<close> is not recorded. The run ends when the generator is exhausted
  (\<open>Finished\<close>) or an exception leaves it (\<open>Raised\<close>). The \<^verbatim>\<open>while\<close> loop may run for ever
  (an agent can return larger and larger OIDs), so the loop takes fuel, one unit per
  iteration; \<open>OutOfFuel\<close> means that the loop was still running when the fuel ended, and
  the events are those up to that point.
\<close>

datatype 'v event =
    Fetch "oid list"
  | Yield "'v varbind"
  | Warning string "oid list" error

datatype ending = Finished | Raised error | OutOfFuel

record ('v, 's) walk_run =
  events :: "'v event list"
  outcome :: ending
  final :: 's

fun yields :: "'v event list \<Rightarrow> 'v varbind list" where
  "yields [] = []"
| "yields (Yield vb # es) = vb # yields es"
| "yields (Fetch os # es) = yields es"
| "yields (Warning i os e # es) = yields es"

fun fetches :: "'v event list \<Rightarrow> oid list list" where
  "fetches [] = []"
| "fetches (Fetch os # es) = os # fetches es"
| "fetches (Yield vb # es) = fetches es"
| "fetches (Warning i os e # es) = fetches es"

fun is_Warning :: "'v event \<Rightarrow> bool" where
  "is_Warning (Warning i os e) = True"
| "is_Warning (Fetch os) = False"
| "is_Warning (Yield vb) = False"

definition ERRORS_STRICT :: string where
  "ERRORS_STRICT = ''strict''"

definition ERRORS_WARN :: string where
  "ERRORS_WARN = ''warn''"

text \<open>
  The helpers \<^verbatim>\<open>group_varbinds\<close> and \<^verbatim>\<open>get_unfinished_walk_oids\<close> are imported from
  \<^verbatim>\<open>puresnmp.util\<close>, which is not part of the sources: they are parameters of the walk.
  \<^verbatim>\<open>group_varbinds(varbinds, effective_roots, user_roots=None)\<close> returns a dict from base
  OIDs to lists of varbinds; \<^verbatim>\<open>get_unfinished_walk_oids(grouped_oids)\<close> returns a list of
  pairs \<^verbatim>\<open>(base, row)\<close> with \<^verbatim>\<open>row.value\<close> a varbind and \<^verbatim>\<open>row.unfinished\<close> a flag.
\<close>

record 'v util =
  group_varbinds ::
    "'v varbind list \<Rightarrow> oid list \<Rightarrow> oid list option \<Rightarrow> (oid \<times> 'v varbind list) list"
  get_unfinished_walk_oids ::
    "(oid \<times> 'v varbind list) list \<Rightarrow> (oid \<times> ('v varbind \<times> bool)) list"

text \<open>A fetcher is called as \<^verbatim>\<open>fetcher(ip, community, oids, port, timeout)\<close>.\<close>

type_synonym ('v, 's) fetcher =
  "string \<Rightarrow> string \<Rightarrow> oid list \<Rightarrow> int \<Rightarrow> int \<Rightarrow> 's \<Rightarrow> (error + 'v varbind list) \<times> 's"

text \<open>
  The two nested \<^verbatim>\<open>for\<close> loops of \<^verbatim>\<open>multiwalk\<close> over the varbinds of a round, given as one
  list: a varbind is skipped when no requested OID contains its OID or when its OID is in
  the set \<^verbatim>\<open>yielded\<close>; otherwise its OID is added to the set and it is yielded. The
  function returns the new set and the varbinds yielded, in order.
\<close>

fun yield_varbinds :: "oid list \<Rightarrow> oid set \<Rightarrow> 'v varbind list \<Rightarrow> oid set \<times> 'v varbind list" where
  "yield_varbinds requested_oids yielded [] = (yielded, [])"
| "yield_varbinds requested_oids yielded (varbind # rest) =
     (if \<not> list_ex (\<lambda>b. oid_in (fst varbind) b) requested_oids \<or> fst varbind \<in> yielded
      then yield_varbinds requested_oids yielded rest
      else
        (case yield_varbinds requested_oids (insert (fst varbind) yielded) rest of
           (yielded', out) \<Rightarrow> (yielded', varbind # out)))"

text \<open>
  The \<^verbatim>\<open>while unfinished_oids:\<close> loop of \<^verbatim>\<open>multiwalk\<close>. \<^verbatim>\<open>sorted(grouped_oids.values())\<close>
  sorts the lists of varbinds as Python compares lists of tuples, lexicographically;
  the values are taken to be totally ordered.
\<close>

fun multiwalk_loop ::
  "'v::linorder util \<Rightarrow> nat \<Rightarrow> string \<Rightarrow> string \<Rightarrow> int \<Rightarrow> int \<Rightarrow> ('v, 's) fetcher \<Rightarrow> string \<Rightarrow>
     oid list \<Rightarrow> (oid \<times> ('v varbind \<times> bool)) list \<Rightarrow> oid set \<Rightarrow> 'v event list \<Rightarrow> 's \<Rightarrow>
     ('v, 's) walk_run"
where
  "multiwalk_loop U 0 ip community port timeout fetcher errors requested_oids
       unfinished_oids yielded trace s =
     (if unfinished_oids = [] then \<lparr>events = trace, outcome = Finished, final = s\<rparr>
      else \<lparr>events = trace, outcome = OutOfFuel, final = s\<rparr>)"
| "multiwalk_loop U (Suc fuel) ip community port timeout fetcher errors requested_oids
       unfinished_oids yielded trace s =
     (if unfinished_oids = [] then \<lparr>events = trace, outcome = Finished, final = s\<rparr>
      else
        (let next_fetches = map (\<lambda>u. fst (fst (snd u))) unfinished_oids in
         case fetcher ip community next_fetches port timeout s of
           (Inl e, s') \<Rightarrow>
             (if e = NoSuchOID
              then \<lparr>events = trace @ [Fetch next_fetches], outcome = Finished, final = s'\<rparr>
              else if e = FaultySNMPImplementation
              then
                (if errors = ERRORS_WARN
                 then \<lparr>events = trace @ [Fetch next_fetches, Warning ip next_fetches e],
                       outcome = Finished, final = s'\<rparr>
                 else \<lparr>events = trace @ [Fetch next_fetches], outcome = Raised e, final = s'\<rparr>)
              else \<lparr>events = trace @ [Fetch next_fetches], outcome = Raised e, final = s'\<rparr>)
         | (Inr vbs, s') \<Rightarrow>
             (let grouped_oids = group_varbinds U vbs next_fetches (Some requested_oids);
                  unfinished_oids' = get_unfinished_walk_oids U grouped_oids in
              case yield_varbinds requested_oids yielded (concat (sort (map snd grouped_oids))) of
                (yielded', out) \<Rightarrow>
                  multiwalk_loop U fuel ip community port timeout fetcher errors requested_oids
                    unfinished_oids' yielded'
                    (trace @ [Fetch next_fetches] @ map Yield out) s')))"

text \<open>
  \<^verbatim>\<open>multiwalk(ip, community, oids, port=161, timeout=2, fetcher=multigetnext,
  errors=ERRORS_STRICT)\<close>: the first fetch stands outside the \<^verbatim>\<open>try\<close>.
\<close>

definition multiwalk ::
  "'v::linorder util \<Rightarrow> nat \<Rightarrow> string \<Rightarrow> string \<Rightarrow> oid list \<Rightarrow> int \<Rightarrow> int \<Rightarrow> ('v, 's) fetcher \<Rightarrow>
     string \<Rightarrow> 's \<Rightarrow> ('v, 's) walk_run"
where
  "multiwalk U fuel ip community oids port timeout fetcher errors s =
     (case fetcher ip community oids port timeout s of
        (Inl e, s') \<Rightarrow> \<lparr>events = [Fetch oids], outcome = Raised e, final = s'\<rparr>
      | (Inr vbs, s') \<Rightarrow>
          (let requested_oids = oids;
               grouped_oids = group_varbinds U vbs requested_oids None;
               unfinished_oids = get_unfinished_walk_oids U grouped_oids in
           case yield_varbinds requested_oids {} (concat (sort (map snd grouped_oids))) of
             (yielded, out) \<Rightarrow>
               multiwalk_loop U fuel ip community port timeout fetcher errors requested_oids
                 unfinished_oids yielded ([Fetch oids] @ map Yield out) s'))"

text \<open>\<^verbatim>\<open>walk(ip, community, oid, port=161, timeout=2, errors=ERRORS_STRICT)\<close>\<close>

definition walk ::
  "'v::linorder util \<Rightarrow> nat \<Rightarrow> ('v, 's) net \<Rightarrow> string \<Rightarrow> string \<Rightarrow> oid \<Rightarrow> int \<Rightarrow> int \<Rightarrow> string \<Rightarrow> 's \<Rightarrow>
     ('v, 's) walk_run"
where
  "walk U fuel N ip community oid port timeout errors s =
     multiwalk U fuel ip community [oid] port timeout (multigetnext N) errors s"

text \<open>\<^verbatim>\<open>_bulkwalk_fetcher(bulk_size=10)\<close>: the fetcher it returns.\<close>

definition bulkwalk_fetcher :: "('v, 's) net \<Rightarrow> int \<Rightarrow> ('v, 's) fetcher" where
  "bulkwalk_fetcher N bulk_size ip community oids port timeout s =
     (case bulkget N ip community [] oids bulk_size port timeout s of
        (Inl e, s') \<Rightarrow> (Inl e, s')
      | (Inr result, s') \<Rightarrow> (Inr (listing result), s'))"

text \<open>
  The \<^verbatim>\<open>oids\<close> argument of \<^verbatim>\<open>bulkwalk\<close>: a list, or an object for which
  \<^verbatim>\<open>isinstance(oids, list)\<close> is false.
\<close>

datatype oids_arg = OidList "oid list" | NotAList

text \<open>\<^verbatim>\<open>bulkwalk(ip, community, oids, bulk_size=10, port=161)\<close>\<close>

definition bulkwalk ::
  "'v::linorder util \<Rightarrow> nat \<Rightarrow> ('v, 's) net \<Rightarrow> string \<Rightarrow> string \<Rightarrow> oids_arg \<Rightarrow> int \<Rightarrow> int \<Rightarrow> 's \<Rightarrow>
     ('v, 's) walk_run"
where
  "bulkwalk U fuel N ip community oids bulk_size port s =
     (case oids of
        NotAList \<Rightarrow> \<lparr>events = [], outcome = Raised TypeError, final = s\<rparr>
      | OidList l \<Rightarrow>
          multiwalk U fuel ip community l port 2 (bulkwalk_fetcher N bulk_size) ERRORS_STRICT s)"

section \<open>The helpers of \<^verbatim>\<open>puresnmp.util\<close>, from the spec\<close>

text \<open>
  Python's extended slice \<^verbatim>\<open>xs[i::n]\<close>, for a step \<open>n > 0\<close>: the elements at the positions
  \<open>i\<close>, \<open>i + n\<close>, \<open>i + 2 n\<close>, ...
\<close>

definition slice_step :: "'a list \<Rightarrow> nat \<Rightarrow> nat \<Rightarrow> 'a list" where
  "slice_step xs i n =
     map snd (filter (\<lambda>(k, x). i \<le> k \<and> (k - i) mod n = 0) (enumerate 0 xs))"

text \<open>
  Modelled from the spec: \<^verbatim>\<open>group_varbinds\<close> (module \<^verbatim>\<open>util\<close>) is not part of the sources.
  By the fetcher contract of the spec the varbind at position \<open>i\<close> of a reply answers the
  OID at position \<open>i\<close> of the frontier (and with GETBULK, which "may return several varbinds
  per requested OID", so do the varbinds at the positions \<open>i + n\<close>, \<open>i + 2 n\<close>, ... for a
  frontier of \<open>n\<close> OIDs). The varbinds that answer one frontier OID form one group, and
  "within each base queue, order is preserved as received". When the user's roots are
  given, "the engine must still re-key them by containment": the group of a frontier OID
  is filed under the user's root that contains that OID, and a group whose frontier OID
  lies in no root is left out. Varbinds outside the base stay in its group, since
  "out-of-tree tail entries signal termination for that base".
\<close>

definition group_varbinds_spec ::
  "'v varbind list \<Rightarrow> oid list \<Rightarrow> oid list option \<Rightarrow> (oid \<times> 'v varbind list) list"
where
  "group_varbinds_spec vbs effective_roots user_roots =
     (let n = length effective_roots;
          results = py_dict (map (\<lambda>(i, root). (root, slice_step vbs i n))
                               (enumerate 0 effective_roots)) in
      case user_roots of
        None \<Rightarrow> results
      | Some roots \<Rightarrow>
          if roots = [] then results
          else
            py_dict (concat (map (\<lambda>(key, group).
              case filter (\<lambda>base. oid_in key base) roots of
                [] \<Rightarrow> []
              | base # others \<Rightarrow> [(base, group)]) results)))"

text \<open>
  Modelled from the spec: \<^verbatim>\<open>get_unfinished_walk_oids\<close> (module \<^verbatim>\<open>util\<close>) is not part of the
  sources. The spec says: "An Unfinished base is one whose last received varbind is still
  inside its subtree and whose next fetch would be last.oid"; the bases come in ascending
  order. A base whose last received varbind is outside its subtree is not returned.
\<close>

definition get_unfinished_walk_oids_spec ::
  "(oid \<times> 'v varbind list) list \<Rightarrow> (oid \<times> ('v varbind \<times> bool)) list"
where
  "get_unfinished_walk_oids_spec grouped_oids =
     sort_key fst
       (concat (map (\<lambda>(b, vbs).
          if vbs \<noteq> [] \<and> oid_in (fst (last vbs)) b then [(b, (last vbs, True))] else [])
        grouped_oids))"

definition util_spec :: "'v util" where
  "util_spec =
     \<lparr>group_varbinds = group_varbinds_spec,
      get_unfinished_walk_oids = get_unfinished_walk_oids_spec\<rparr>"

section \<open>Recording the traffic\<close>

text \<open>
  What the tests read from the mock of \<^verbatim>\<open>send\<close>: the calls in order, each with its
  arguments and what it returned. \<open>logged N\<close> behaves as \<open>N\<close> and keeps that list beside
  the state of \<open>N\<close>.
\<close>

record 'v send_call =
  call_ip :: string
  call_port :: int
  call_packet :: "'v packet"
  call_timeout :: int

definition logged ::
  "('v, 's) net \<Rightarrow> ('v, ('v send_call \<times> (error + 'v response)) list \<times> 's) net"
where
  "logged N =
     \<lparr>get_request_id = (\<lambda>(log, s). case get_request_id N s of (rid, s') \<Rightarrow> (rid, (log, s'))),
      send = (\<lambda>ip port pkt timeout (log, s).
        case send N ip port pkt timeout s of
          (reply, s') \<Rightarrow>
            (reply,
             (log @ [(\<lparr>call_ip = ip, call_port = port, call_packet = pkt,
                       call_timeout = timeout\<rparr>, reply)], s')))\<rparr>"


section \<open>Agents and scenarios\<close>

text \<open>
  \<open>retag f N\<close> is the world \<open>N\<close> in which every reply carries the request id
  \<open>f packet i\<close> instead of its own \<open>i\<close>, for the request \<open>packet\<close> it answers.
\<close>

definition retag :: "('v packet \<Rightarrow> int \<Rightarrow> int) \<Rightarrow> ('v, 's) net \<Rightarrow> ('v, 's) net" where
  "retag f N =
     \<lparr>get_request_id = get_request_id N,
      send = (\<lambda>ip port pkt timeout s.
        case send N ip port pkt timeout s of
          (Inl e, s') \<Rightarrow> (Inl e, s')
        | (Inr r, s') \<Rightarrow> (Inr (r\<lparr>request_id := f pkt (request_id r)\<rparr>), s'))\<rparr>"

text \<open>
  A world whose request-id source always gives 1 and whose agent always answers with
  request id 999; the state counts the datagrams sent.
\<close>

definition mismatch_agent :: "(int, nat) net" where
  "mismatch_agent =
     \<lparr>get_request_id = (\<lambda>s. (1, s)),
      send = (\<lambda>ip port pkt timeout s.
        (Inr \<lparr>request_id = 999, varbinds = [([1, 2, 3], 42)]\<rparr>, Suc s))\<rparr>"

text \<open>
  \<open>reoid g N\<close> is the world \<open>N\<close> in which the varbind at position \<open>i\<close> of every reply
  carries the OID \<open>g i\<close> instead of its own.
\<close>

definition reoid :: "(nat \<Rightarrow> oid) \<Rightarrow> ('v, 's) net \<Rightarrow> ('v, 's) net" where
  "reoid g N =
     \<lparr>get_request_id = get_request_id N,
      send = (\<lambda>ip port pkt timeout s.
        case send N ip port pkt timeout s of
          (Inl e, s') \<Rightarrow> (Inl e, s')
        | (Inr r, s') \<Rightarrow>
            (Inr (r\<lparr>varbinds := map (\<lambda>(i, vb). (g i, snd vb)) (enumerate 0 (varbinds r))\<rparr>),
             s'))\<rparr>"

text \<open>An agent that answers every request with two varbinds for OIDs nobody asked for.\<close>

definition unrelated_agent :: "(int, nat) net" where
  "unrelated_agent =
     \<lparr>get_request_id = (\<lambda>s. (int s, s)),
      send = (\<lambda>ip port pkt timeout s.
        (Inr \<lparr>request_id = 0, varbinds = [([9, 9], 7), ([0], 8)]\<rparr>, Suc s))\<rparr>"

text \<open>An agent that answers every request with the varbinds of 1.2.3 and 1.2.4.\<close>

definition set_agent :: "(int, nat) net" where
  "set_agent =
     \<lparr>get_request_id = (\<lambda>s. (int s, s)),
      send = (\<lambda>ip port pkt timeout s.
        (Inr \<lparr>request_id = 0, varbinds = [([1, 2, 3], 5), ([1, 2, 4], 6)]\<rparr>, Suc s))\<rparr>"

section \<open>Invariants of a run\<close>


text \<open>
  A traffic log in which every call carried the timeout \<open>t\<close> and every reply was decoded.
\<close>

definition clean_log :: "int \<Rightarrow> ('v send_call \<times> (error + 'v response)) list \<Rightarrow> bool" where
  "clean_log t log \<longleftrightarrow> (\<forall>c \<in> set log. call_timeout (fst c) = t \<and> (\<forall>e. snd c \<noteq> Inl e))"

section \<open>More agents\<close>

text \<open>
  An agent stuck on 1.2.5: its replies are 1.2.3, 1.2.4, 1.2.5 and then 1.2.5 for ever,
  whatever is asked. The state counts the datagrams sent.
\<close>

definition stuck_agent :: "(int, nat) net" where
  "stuck_agent =
     \<lparr>get_request_id = (\<lambda>s. (int s, s)),
      send = (\<lambda>ip port pkt timeout s.
        (Inr \<lparr>request_id = 234,
              varbinds = [if s = 0 then ([1, 2, 3], 123)
                          else if s = 1 then ([1, 2, 4], 124)
                          else ([1, 2, 5], 125)]\<rparr>, Suc s))\<rparr>"

text \<open>
  An agent for two subtrees: its first reply is 1.2.1 and 1.3.1; every later reply
  repeats 1.2.1 and goes on to 1.3.2.
\<close>

definition two_base_agent :: "(int, nat) net" where
  "two_base_agent =
     \<lparr>get_request_id = (\<lambda>s. (int s, s)),
      send = (\<lambda>ip port pkt timeout s.
        (Inr \<lparr>request_id = 234,
              varbinds = (if s = 0 then [([1, 2, 1], 1), ([1, 3, 1], 2)]
                          else [([1, 2, 1], 1), ([1, 3, 2], 3)])\<rparr>, Suc s))\<rparr>"

text \<open>An agent whose every reply makes the decoder raise \<^verbatim>\<open>NoSuchOID\<close>.\<close>

definition end_agent :: "(int, nat) net" where
  "end_agent =
     \<lparr>get_request_id = (\<lambda>s. (int s, s)),
      send = (\<lambda>ip port pkt timeout s. (Inl NoSuchOID, Suc s))\<rparr>"

text \<open>
  An agent that answers the first request with 1.2.1; after that the exchange raises
  \<^verbatim>\<open>FaultySNMPImplementation\<close>.
\<close>

definition faulty_bulk_agent :: "(int, nat) net" where
  "faulty_bulk_agent =
     \<lparr>get_request_id = (\<lambda>s. (int s, s)),
      send = (\<lambda>ip port pkt timeout s.
        (if s = 0 then Inr \<lparr>request_id = 0, varbinds = [([1, 2, 1], 1)]\<rparr>
         else Inl FaultySNMPImplementation, Suc s))\<rparr>"

section \<open>Properties\<close>

subsection \<open>Request ids\<close>

lemma multiget_retag: "multiget (retag f N) = multiget N"
  by (intro ext) (simp add: multiget_def retag_def split: prod.splits sum.splits)

lemma multigetnext_retag: "multigetnext (retag f N) = multigetnext N"
  by (intro ext) (simp add: multigetnext_def retag_def split: prod.splits sum.splits)

lemma multiset_retag: "multiset (retag f N) = multiset N"
  by (intro ext) (simp add: multiset_def retag_def split: prod.splits sum.splits)

lemma bulkget_retag: "bulkget (retag f N) = bulkget N"
  by (intro ext) (simp add: bulkget_def retag_def Let_def split: prod.splits sum.splits)

text \<open>
  C1, as the code has it: no operation of the engine compares the request id of the reply
  with the request id it sent. Each of \<open>multiget\<close>, \<open>get\<close>, \<open>multigetnext\<close>, \<open>getnext\<close>,
  \<open>multiset\<close>, \<open>set\<close> and \<open>bulkget\<close> returns the same result and leaves the same state
  whatever request id the replies carry.
\<close>

theorem engine_ignores_response_request_id:
  "multiget (retag f N) = multiget N \<and>
   get (retag f N) = get N \<and>
   multigetnext (retag f N) = multigetnext N \<and>
   getnext (retag f N) = getnext N \<and>
   multiset (retag f N) = multiset N \<and>
   set_oid (retag f N) = set_oid N \<and>
   bulkget (retag f N) = bulkget N"
  by (intro conjI ext)
     (simp_all add: get_def getnext_def set_oid_def multiget_retag multigetnext_retag
        multiset_retag bulkget_retag)

text \<open>
  C1 as stated fails: \<open>multiget\<close> sends a \<open>GetRequest\<close> with request id 1, the reply
  carries request id 999, and the value of the reply is returned as the result.
\<close>

theorem multiget_accepts_foreign_request_id:
  "multiget (logged mismatch_agent) ''::1'' ''private'' [[1, 2, 3]] 161 2 ([], 0) =
     (Inr [42],
      ([(\<lparr>call_ip = ''::1'', call_port = 161,
          call_packet = \<lparr>pkt_version = 1, pkt_community = ''private'',
                         pkt_pdu = GetRequest 1 [[1, 2, 3]]\<rparr>,
          call_timeout = 2\<rparr>,
         Inr \<lparr>request_id = 999, varbinds = [([1, 2, 3], 42)]\<rparr>)], 1))"
  by (simp add: multiget_def logged_def mismatch_agent_def V2C_def)

subsection \<open>\<open>multiget\<close>: the values of the reply\<close>

lemma values_of_reoid:
  "map (snd \<circ> (\<lambda>(i, vb). (g i, snd vb))) (enumerate 0 vbs) = map snd vbs"
  by (rule nth_equalityI) (simp_all add: nth_enumerate_eq)

lemma multiget_reoid:
  "multiget (reoid g N) ip community oids port timeout s =
     multiget N ip community oids port timeout s"
  by (simp add: multiget_def reoid_def values_of_reoid split: prod.splits sum.splits)

text \<open>
  C9: when the reply has as many varbinds as OIDs were requested, \<open>multiget\<close> returns the
  values of the reply's varbinds in the reply's order, whatever their OIDs are; and the
  result of \<open>multiget\<close> never depends on the OIDs of the reply: replacing them by
  arbitrary ones changes nothing.
\<close>

theorem multiget_returns_reply_values:
  "(get_request_id N s = (rid, s1) \<and>
    send N ip port \<lparr>pkt_version = V2C, pkt_community = community, pkt_pdu = GetRequest rid oids\<rparr>
      timeout s1 = (Inr resp, s2) \<and>
    length (varbinds resp) = length oids \<longrightarrow>
      multiget N ip community oids port timeout s = (Inr (map snd (varbinds resp)), s2)) \<and>
   multiget (reoid g N) ip community oids port timeout s =
     multiget N ip community oids port timeout s"
  by (simp add: multiget_reoid) (simp add: multiget_def)

text \<open>
  C9 at a concrete input: 1.2.3 and 1.2.4 are requested, the reply carries 9.9 and 0, and
  the two values are returned.
\<close>

theorem multiget_returns_reply_values_witness:
  "get_request_id unrelated_agent 0 = (0, 0) \<and>
   send unrelated_agent ''::1'' 161
     \<lparr>pkt_version = V2C, pkt_community = ''private'',
      pkt_pdu = GetRequest 0 [[1, 2, 3], [1, 2, 4]]\<rparr> 2 0 =
     (Inr \<lparr>request_id = 0, varbinds = [([9, 9], 7), ([0], 8)]\<rparr>, 1) \<and>
   multiget unrelated_agent ''::1'' ''private'' [[1, 2, 3], [1, 2, 4]] 161 2 0 = (Inr [7, 8], 1)"
  using multiget_returns_reply_values
    [where N = unrelated_agent and s = 0 and rid = 0 and ?s1.0 = 0 and ip = "''::1''"
       and port = 161 and community = "''private''" and oids = "[[1, 2, 3], [1, 2, 4]]"
       and timeout = 2
       and resp = "\<lparr>request_id = 0, varbinds = [([9, 9], 7), ([0], 8)]\<rparr>" and ?s2.0 = 1]
  by (simp add: unrelated_agent_def)

subsection \<open>\<open>multigetnext\<close>: successors\<close>

lemma list_all_zip_nth:
  "length xs = length ys \<Longrightarrow>
     list_all (\<lambda>(a, b). P a b) (zip xs ys) = (\<forall>i<length xs. P (xs ! i) (ys ! i))"
  by (auto simp: list_all_iff set_zip)









subsection \<open>The count of varbinds in a reply\<close>

lemma py_dict_snoc: "py_dict (kvs @ [kv]) = AList.update (fst kv) (snd kv) (py_dict kvs)"
  by (simp add: py_dict_def)

lemma py_dict_keys: "fst ` set (py_dict kvs) = fst ` set kvs"
  by (induction kvs rule: rev_induct) (auto simp: py_dict_snoc dom_update py_dict_def)

lemma py_dict_distinct: "distinct (map fst (py_dict kvs))"
  by (induction kvs rule: rev_induct) (auto simp: py_dict_snoc distinct_update py_dict_def)

lemma length_py_dict: "length (py_dict kvs) = card (fst ` set kvs)"
proof -
  have "card (fst ` set kvs) = card (set (map fst (py_dict kvs)))"
    by (simp add: py_dict_keys)
  also have "\<dots> = length (map fst (py_dict kvs))"
    by (rule distinct_card) (rule py_dict_distinct)
  finally show ?thesis by simp
qed

lemma multiget_count:
  "get_request_id N s = (rid, s1) \<and>
   send N ip port \<lparr>pkt_version = V2C, pkt_community = community, pkt_pdu = GetRequest rid oids\<rparr>
     timeout s1 = (Inr resp, s2) \<longrightarrow>
     (length (varbinds resp) \<noteq> length oids \<longrightarrow>
        multiget N ip community oids port timeout s = (Inl SnmpError, s2)) \<and>
     (length (varbinds resp) = length oids \<longrightarrow>
        (\<exists>out. multiget N ip community oids port timeout s = (Inr out, s2) \<and>
               length out = length oids))"
  by (simp add: multiget_def)

lemma multigetnext_count:
  "get_request_id N s = (rid, s1) \<and>
   send N ip port
     \<lparr>pkt_version = V2C, pkt_community = community, pkt_pdu = GetNextRequest rid oids\<rparr>
     timeout s1 = (Inr resp, s2) \<longrightarrow>
     (length (varbinds resp) \<noteq> length oids \<longrightarrow>
        multigetnext N ip community oids port timeout s = (Inl SnmpError, s2)) \<and>
     (length (varbinds resp) = length oids \<and>
      (\<forall>i<length oids. oid_less (oids ! i) (fst (varbinds resp ! i))) \<longrightarrow>
        (\<exists>out. multigetnext N ip community oids port timeout s = (Inr out, s2) \<and>
               length out = length oids)) \<and>
     (length (varbinds resp) = length oids \<and>
      \<not> (\<forall>i<length oids. oid_less (oids ! i) (fst (varbinds resp ! i))) \<longrightarrow>
        multigetnext N ip community oids port timeout s = (Inl FaultySNMPImplementation, s2))"
  by (simp add: multigetnext_def Let_def list_all_zip_nth)

lemma multiset_count:
  "\<not> list_ex (\<lambda>(k, v). \<not> is_Type v) mappings \<and>
   get_request_id N s = (rid, s1) \<and>
   send N ip port
     \<lparr>pkt_version = V2C, pkt_community = community,
      pkt_pdu = SetRequest rid (make_binds mappings)\<rparr>
     timeout s1 = (Inr resp, s2) \<longrightarrow>
     (card (fst ` set (varbinds resp)) \<noteq> length mappings \<longrightarrow>
        multiset N ip community mappings port timeout s = (Inl SnmpError, s2)) \<and>
     (card (fst ` set (varbinds resp)) = length mappings \<longrightarrow>
        (\<exists>out. multiset N ip community mappings port timeout s = (Inr out, s2) \<and>
               length out = length mappings))"
  by (simp add: multiset_def Let_def length_py_dict)

text \<open>
  C6, as the code has it. A call with \<open>N\<close> requested varbinds whose reply was decoded
  raises \<open>SnmpError\<close> when the number of varbinds of the reply (for \<open>multiset\<close>, the number
  of distinct OIDs of the reply) differs from \<open>N\<close>. Otherwise \<open>multiget\<close> and \<open>multiset\<close>
  (whose values are all instances of \<open>Type\<close>) return exactly \<open>N\<close> results; \<open>multigetnext\<close>
  returns exactly \<open>N\<close> results when every returned OID is strictly greater than the
  requested OID at its position, and raises \<open>FaultySNMPImplementation\<close> when one is not.
\<close>

theorem response_cardinality_checked:
  "(get_request_id N s = (rid, s1) \<and>
    send N ip port \<lparr>pkt_version = V2C, pkt_community = community, pkt_pdu = GetRequest rid oids\<rparr>
      timeout s1 = (Inr resp, s2) \<longrightarrow>
      (length (varbinds resp) \<noteq> length oids \<longrightarrow>
         multiget N ip community oids port timeout s = (Inl SnmpError, s2)) \<and>
      (length (varbinds resp) = length oids \<longrightarrow>
         (\<exists>out. multiget N ip community oids port timeout s = (Inr out, s2) \<and>
                length out = length oids))) \<and>
   (get_request_id N s = (rid, s1) \<and>
    send N ip port
      \<lparr>pkt_version = V2C, pkt_community = community, pkt_pdu = GetNextRequest rid oids\<rparr>
      timeout s1 = (Inr resp', s2') \<longrightarrow>
      (length (varbinds resp') \<noteq> length oids \<longrightarrow>
         multigetnext N ip community oids port timeout s = (Inl SnmpError, s2')) \<and>
      (length (varbinds resp') = length oids \<and>
       (\<forall>i<length oids. oid_less (oids ! i) (fst (varbinds resp' ! i))) \<longrightarrow>
         (\<exists>out. multigetnext N ip community oids port timeout s = (Inr out, s2') \<and>
                length out = length oids)) \<and>
      (length (varbinds resp') = length oids \<and>
       \<not> (\<forall>i<length oids. oid_less (oids ! i) (fst (varbinds resp' ! i))) \<longrightarrow>
         multigetnext N ip community oids port timeout s =
           (Inl FaultySNMPImplementation, s2'))) \<and>
   (\<not> list_ex (\<lambda>(k, v). \<not> is_Type v) mappings \<and>
    get_request_id N s = (rid, s1) \<and>
    send N ip port
      \<lparr>pkt_version = V2C, pkt_community = community,
       pkt_pdu = SetRequest rid (make_binds mappings)\<rparr>
      timeout s1 = (Inr resp'', s2'') \<longrightarrow>
      (card (fst ` set (varbinds resp'')) \<noteq> length mappings \<longrightarrow>
         multiset N ip community mappings port timeout s = (Inl SnmpError, s2'')) \<and>
      (card (fst ` set (varbinds resp'')) = length mappings \<longrightarrow>
         (\<exists>out. multiset N ip community mappings port timeout s = (Inr out, s2'') \<and>
                length out = length mappings)))"
  by (intro conjI) (rule multiget_count, rule multigetnext_count, rule multiset_count)

text \<open>
  C6 (amended) at concrete inputs: an agent that always answers with two varbinds, asked
  for one and for two OIDs.
\<close>

theorem response_cardinality_checked_witness:
  "multiget set_agent ''::1'' ''private'' [[1, 2, 3]] 161 2 0 = (Inl SnmpError, 1) \<and>
   multiget set_agent ''::1'' ''private'' [[1, 2, 3], [1, 2, 4]] 161 2 0 = (Inr [5, 6], 1) \<and>
   multigetnext set_agent ''::1'' ''private'' [[1, 2, 3]] 161 2 0 = (Inl SnmpError, 1) \<and>
   multigetnext set_agent ''::1'' ''private'' [[1, 2], [1, 2, 3]] 161 2 0 =
     (Inr [([1, 2, 3], 5), ([1, 2, 4], 6)], 1) \<and>
   multigetnext set_agent ''::1'' ''private'' [[1, 2, 3], [1, 2, 3]] 161 2 0 =
     (Inl FaultySNMPImplementation, 1) \<and>
   multiset set_agent ''::1'' ''private'' [([1, 2, 3], Typed 5)] 161 2 0 = (Inl SnmpError, 1) \<and>
   multiset set_agent ''::1'' ''private'' [([1, 2, 3], Typed 5), ([1, 2, 4], Typed 6)] 161 2 0 =
     (Inr [([1, 2, 3], 5), ([1, 2, 4], 6)], 1)"
  using response_cardinality_checked
    [where N = set_agent and s = 0 and rid = 0 and ?s1.0 = 0 and ip = "''::1''"
       and port = 161 and community = "''private''" and oids = "[[1, 2, 3]]" and timeout = 2
       and resp = "\<lparr>request_id = 0, varbinds = [([1, 2, 3], 5), ([1, 2, 4], 6)]\<rparr>"
       and resp' = "\<lparr>request_id = 0, varbinds = [([1, 2, 3], 5), ([1, 2, 4], 6)]\<rparr>"
       and resp'' = "\<lparr>request_id = 0, varbinds = [([1, 2, 3], 5), ([1, 2, 4], 6)]\<rparr>"
       and mappings = "[([1, 2, 3], Typed 5)]"
       and ?s2.0 = 1 and s2' = 1 and s2'' = 1]
  by (simp add: set_agent_def multiget_def multigetnext_def multiset_def make_binds_def
        py_dict_def oid_less_def Let_def)

text \<open>
  C6 as stated fails: 1.2.3 is requested from \<open>multigetnext\<close>, the reply has exactly one
  varbind (for 1.2.3 again), and the call raises \<open>FaultySNMPImplementation\<close> instead of
  returning one result.
\<close>

theorem multigetnext_right_count_not_returned:
  "length (varbinds \<lparr>request_id = 999, varbinds = [([1, 2, 3], 42::int)]\<rparr>) =
     length [[1, 2, 3::nat]] \<and>
   multigetnext (logged mismatch_agent) ''::1'' ''private'' [[1, 2, 3]] 161 2 ([], 0) =
     (Inl FaultySNMPImplementation,
      ([(\<lparr>call_ip = ''::1'', call_port = 161,
          call_packet = \<lparr>pkt_version = 1, pkt_community = ''private'',
                         pkt_pdu = GetNextRequest 1 [[1, 2, 3]]\<rparr>,
          call_timeout = 2\<rparr>,
         Inr \<lparr>request_id = 999, varbinds = [([1, 2, 3], 42)]\<rparr>)], 1))"
  by (simp add: multigetnext_def logged_def mismatch_agent_def V2C_def oid_less_def)

subsection \<open>\<open>bulkget\<close>: the bound on the reply\<close>

text \<open>
  C4, as the code has it. With \<open>n\<close> the number of scalar OIDs, \<open>m = max_list_size\<close> and
  \<open>k\<close> the number of all requested OIDs, a decoded reply with more than
  \<open>n + m * max 0 (k - n)\<close> varbinds makes \<open>bulkget\<close> raise \<open>SnmpError\<close>; any other decoded
  reply passes the check and a \<open>BulkResult\<close> is returned.
\<close>

theorem bulkget_cardinality_checked:
  "get_request_id N s = (rid, s1) \<and>
   send N ip port
     \<lparr>pkt_version = V2C, pkt_community = community,
      pkt_pdu = BulkGetRequest rid (int (length scalar_oids)) max_list_size
                  (scalar_oids @ repeating_oids)\<rparr>
     timeout s1 = (Inr resp, s2) \<longrightarrow>
     (int (length (varbinds resp)) >
        int (length scalar_oids) +
        max_list_size *
          max 0 (int (length (scalar_oids @ repeating_oids)) - int (length scalar_oids)) \<longrightarrow>
      bulkget N ip community scalar_oids repeating_oids max_list_size port timeout s =
        (Inl SnmpError, s2)) \<and>
     (\<not> int (length (varbinds resp)) >
        int (length scalar_oids) +
        max_list_size *
          max 0 (int (length (scalar_oids @ repeating_oids)) - int (length scalar_oids)) \<longrightarrow>
      (\<exists>result. bulkget N ip community scalar_oids repeating_oids max_list_size port timeout s =
        (Inr result, s2)))"
  by (simp add: bulkget_def Let_def max_def min_def)

text \<open>
  C4 (amended) at concrete inputs: one repeating OID and a reply of two varbinds, with
  \<open>max_list_size\<close> 1 (bound 1, exceeded) and 2 (bound 2, met).
\<close>

theorem bulkget_cardinality_checked_witness:
  "bulkget set_agent ''::1'' ''private'' [] [[1, 2]] 1 161 2 0 = (Inl SnmpError, 1) \<and>
   bulkget set_agent ''::1'' ''private'' [] [[1, 2]] 2 161 2 0 =
     (Inr \<lparr>scalars = [], listing = [([1, 2, 3], 5), ([1, 2, 4], 6)]\<rparr>, 1)"
  using bulkget_cardinality_checked
    [where N = set_agent and s = 0 and rid = 0 and ?s1.0 = 0 and ip = "''::1''"
       and port = 161 and community = "''private''" and scalar_oids = "[]"
       and repeating_oids = "[[1, 2]]" and max_list_size = 1 and timeout = 2
       and resp = "\<lparr>request_id = 0, varbinds = [([1, 2, 3], 5), ([1, 2, 4], 6)]\<rparr>"
       and ?s2.0 = 1]
  by (simp add: set_agent_def bulkget_def py_dict_def Let_def)

text \<open>
  C4 as stated fails: the reply has two varbinds where at most \<open>0 + 1 * max 0 (1 - 0) = 1\<close>
  is allowed, and the error raised is \<open>SnmpError\<close>, not \<open>FaultySNMPImplementation\<close>.
\<close>

theorem bulkget_too_many_raises_SnmpError:
  "int (length [([1, 2, 3], 5), ([1, 2, 4], 6::int)]) > 0 + 1 * max 0 (1 - 0) \<and>
   bulkget set_agent ''::1'' ''private'' [] [[1, 2]] 1 161 2 0 = (Inl SnmpError, 1) \<and>
   fst (bulkget set_agent ''::1'' ''private'' [] [[1, 2]] 1 161 2 0) \<noteq>
     Inl FaultySNMPImplementation"
  by (simp add: set_agent_def bulkget_def Let_def)

subsection \<open>The walk: what is yielded\<close>











lemma list_ex_map_Yield: "\<not> list_ex is_Warning (map Yield out)"
  by (induction out) simp_all

lemma multiwalk_loop_warn:
  assumes "\<not> list_ex is_Warning trace"
  shows "\<not> list_ex is_Warning
           (events (multiwalk_loop U fuel ip community port timeout fetcher ERRORS_WARN R
              unfinished Y trace s)) \<or>
         (outcome (multiwalk_loop U fuel ip community port timeout fetcher ERRORS_WARN R
              unfinished Y trace s) = Finished \<and>
          (\<exists>es fs. events (multiwalk_loop U fuel ip community port timeout fetcher ERRORS_WARN R
              unfinished Y trace s) = es @ [Fetch fs, Warning ip fs FaultySNMPImplementation] \<and>
             \<not> list_ex is_Warning es))"
  using assms
proof (induction fuel arbitrary: unfinished Y trace s)
  case 0
  then show ?case by simp
next
  case (Suc fuel)
  let ?nf = "map (\<lambda>u. fst (fst (snd u))) unfinished"
  show ?case
  proof (cases "unfinished = []")
    case True
    with Suc.prems show ?thesis by simp
  next
    case False
    obtain res s' where f: "fetcher ip community ?nf port timeout s = (res, s')"
      by (cases "fetcher ip community ?nf port timeout s")
    show ?thesis
    proof (cases res)
      case (Inl e)
      with False f Suc.prems show ?thesis
        by (auto simp: Let_def)
    next
      case (Inr vbs)
      let ?g = "group_varbinds U vbs ?nf (Some R)"
      obtain Y' out where y: "yield_varbinds R Y (concat (sort (map snd ?g))) = (Y', out)"
        by (cases "yield_varbinds R Y (concat (sort (map snd ?g)))")
      from Suc.prems have "\<not> list_ex is_Warning (trace @ [Fetch ?nf] @ map Yield out)"
        by (simp add: list_ex_map_Yield)
      from Suc.IH [OF this] show ?thesis using False f Inr y
        by (simp add: Let_def)
    qed
  qed
qed

lemma multiwalk_loop_no_warn:
  assumes "errors \<noteq> ERRORS_WARN" and "\<not> list_ex is_Warning trace"
  shows "\<not> list_ex is_Warning
           (events (multiwalk_loop U fuel ip community port timeout fetcher errors R
              unfinished Y trace s))"
  using assms(2)
proof (induction fuel arbitrary: unfinished Y trace s)
  case 0
  then show ?case by simp
next
  case (Suc fuel)
  let ?nf = "map (\<lambda>u. fst (fst (snd u))) unfinished"
  show ?case
  proof (cases "unfinished = []")
    case True
    with Suc.prems show ?thesis by simp
  next
    case False
    obtain res s' where f: "fetcher ip community ?nf port timeout s = (res, s')"
      by (cases "fetcher ip community ?nf port timeout s")
    show ?thesis
    proof (cases res)
      case (Inl e)
      with False f Suc.prems assms(1) show ?thesis
        by (auto simp: Let_def)
    next
      case (Inr vbs)
      let ?g = "group_varbinds U vbs ?nf (Some R)"
      obtain Y' out where y: "yield_varbinds R Y (concat (sort (map snd ?g))) = (Y', out)"
        by (cases "yield_varbinds R Y (concat (sort (map snd ?g)))")
      from Suc.prems have "\<not> list_ex is_Warning (trace @ [Fetch ?nf] @ map Yield out)"
        by (simp add: list_ex_map_Yield)
      from Suc.IH [OF this] show ?thesis using False f Inr y
        by (simp add: Let_def)
    qed
  qed
qed

lemma multiwalk_warn:
  "\<not> list_ex is_Warning
      (events (multiwalk U fuel ip community oids port timeout fetcher ERRORS_WARN s)) \<or>
   (outcome (multiwalk U fuel ip community oids port timeout fetcher ERRORS_WARN s) = Finished \<and>
    (\<exists>es fs. events (multiwalk U fuel ip community oids port timeout fetcher ERRORS_WARN s) =
        es @ [Fetch fs, Warning ip fs FaultySNMPImplementation] \<and>
       \<not> list_ex is_Warning es))"
proof -
  obtain res s' where f: "fetcher ip community oids port timeout s = (res, s')"
    by (cases "fetcher ip community oids port timeout s")
  show ?thesis
  proof (cases res)
    case (Inl e)
    with f show ?thesis by (simp add: multiwalk_def)
  next
    case (Inr vbs)
    let ?g = "group_varbinds U vbs oids None"
    obtain Y' out where y: "yield_varbinds oids {} (concat (sort (map snd ?g))) = (Y', out)"
      by (cases "yield_varbinds oids {} (concat (sort (map snd ?g)))")
    have "\<not> list_ex is_Warning ([Fetch oids] @ map Yield out)"
      by (simp add: list_ex_map_Yield)
    from multiwalk_loop_warn [OF this] show ?thesis using f Inr y
      by (simp add: multiwalk_def Let_def)
  qed
qed

lemma multiwalk_no_warn:
  assumes "errors \<noteq> ERRORS_WARN"
  shows "\<not> list_ex is_Warning
      (events (multiwalk U fuel ip community oids port timeout fetcher errors s))"
proof -
  obtain res s' where f: "fetcher ip community oids port timeout s = (res, s')"
    by (cases "fetcher ip community oids port timeout s")
  show ?thesis
  proof (cases res)
    case (Inl e)
    with f show ?thesis by (simp add: multiwalk_def)
  next
    case (Inr vbs)
    let ?g = "group_varbinds U vbs oids None"
    obtain Y' out where y: "yield_varbinds oids {} (concat (sort (map snd ?g))) = (Y', out)"
      by (cases "yield_varbinds oids {} (concat (sort (map snd ?g)))")
    have "\<not> list_ex is_Warning ([Fetch oids] @ map Yield out)"
      by (simp add: list_ex_map_Yield)
    from multiwalk_loop_no_warn [OF assms this] show ?thesis using f Inr y
      by (simp add: multiwalk_def Let_def)
  qed
qed

lemma bulkwalk_fetcher_logged:
  assumes "bulkwalk_fetcher (logged N) bulk_size ip community oids port t (log, s) = (res, st)"
  shows "\<exists>c reply s'. st = (log @ [(c, reply)], s') \<and> call_timeout c = t \<and>
           (\<forall>e. reply = Inl e \<longrightarrow> res = Inl e)"
  using assms
  by (auto simp: bulkwalk_fetcher_def bulkget_def logged_def Let_def
           split: prod.splits sum.splits if_splits)

lemma multiwalk_loop_bulk_log:
  assumes "clean_log t log"
  shows "(\<forall>c \<in> set (fst (final (multiwalk_loop U fuel ip community port t
              (bulkwalk_fetcher (logged N) bulk_size) ERRORS_STRICT R unfinished Y trace
              (log, s)))). call_timeout (fst c) = t) \<and>
         ((\<exists>c. (c, Inl FaultySNMPImplementation) \<in> set (fst (final (multiwalk_loop U fuel ip
              community port t (bulkwalk_fetcher (logged N) bulk_size) ERRORS_STRICT R
              unfinished Y trace (log, s))))) \<longrightarrow>
          outcome (multiwalk_loop U fuel ip community port t
              (bulkwalk_fetcher (logged N) bulk_size) ERRORS_STRICT R unfinished Y trace
              (log, s)) = Raised FaultySNMPImplementation)"
  using assms
proof (induction fuel arbitrary: unfinished Y trace log s)
  case 0
  then show ?case by (auto simp: clean_log_def)
next
  case (Suc fuel)
  let ?F = "bulkwalk_fetcher (logged N) bulk_size"
  let ?nf = "map (\<lambda>u. fst (fst (snd u))) unfinished"
  show ?case
  proof (cases "unfinished = []")
    case True
    with Suc.prems show ?thesis by (auto simp: clean_log_def)
  next
    case False
    obtain res st where f: "?F ip community ?nf port t (log, s) = (res, st)"
      by (cases "?F ip community ?nf port t (log, s)")
    from bulkwalk_fetcher_logged [OF f] obtain c reply s' where
      st: "st = (log @ [(c, reply)], s')" and ct: "call_timeout c = t" and
      rep: "\<forall>e. reply = Inl e \<longrightarrow> res = Inl e"
      by blast
    show ?thesis
    proof (cases res)
      case (Inl e)
      have "ERRORS_STRICT \<noteq> ERRORS_WARN"
        by (simp add: ERRORS_STRICT_def ERRORS_WARN_def)
      with Inl False f st ct rep Suc.prems show ?thesis
        by (auto simp: Let_def clean_log_def)
    next
      case (Inr vbs)
      let ?g = "group_varbinds U vbs ?nf (Some R)"
      obtain Y' out where y: "yield_varbinds R Y (concat (sort (map snd ?g))) = (Y', out)"
        by (cases "yield_varbinds R Y (concat (sort (map snd ?g)))")
      from Inr rep have "\<forall>e. reply \<noteq> Inl e" by auto
      with Suc.prems ct have "clean_log t (log @ [(c, reply)])"
        by (auto simp: clean_log_def)
      from Suc.IH [OF this] show ?thesis using False f Inr y st
        by (simp add: Let_def)
    qed
  qed
qed

lemma multiwalk_bulk_log:
  "(\<forall>c \<in> set (fst (final (multiwalk U fuel ip community oids port t
        (bulkwalk_fetcher (logged N) bulk_size) ERRORS_STRICT ([], s)))).
      call_timeout (fst c) = t) \<and>
   ((\<exists>c. (c, Inl FaultySNMPImplementation) \<in> set (fst (final (multiwalk U fuel ip community
        oids port t (bulkwalk_fetcher (logged N) bulk_size) ERRORS_STRICT ([], s))))) \<longrightarrow>
    outcome (multiwalk U fuel ip community oids port t
        (bulkwalk_fetcher (logged N) bulk_size) ERRORS_STRICT ([], s)) =
      Raised FaultySNMPImplementation)"
proof -
  let ?F = "bulkwalk_fetcher (logged N) bulk_size"
  obtain res st where f: "?F ip community oids port t ([], s) = (res, st)"
    by (cases "?F ip community oids port t ([], s)")
  from bulkwalk_fetcher_logged [OF f] obtain c reply s' where
    st: "st = ([] @ [(c, reply)], s')" and ct: "call_timeout c = t" and
    rep: "\<forall>e. reply = Inl e \<longrightarrow> res = Inl e"
    by blast
  show ?thesis
  proof (cases res)
    case (Inl e)
    with f st ct rep show ?thesis
      by (auto simp: multiwalk_def)
  next
    case (Inr vbs)
    let ?g = "group_varbinds U vbs oids None"
    obtain Y' out where y: "yield_varbinds oids {} (concat (sort (map snd ?g))) = (Y', out)"
      by (cases "yield_varbinds oids {} (concat (sort (map snd ?g)))")
    from Inr rep have "\<forall>e. reply \<noteq> Inl e" by auto
    with ct have "clean_log t ([] @ [(c, reply)])"
      by (auto simp: clean_log_def)
    from multiwalk_loop_bulk_log [OF this] show ?thesis using f Inr y st
      by (simp add: multiwalk_def Let_def)
  qed
qed

lemmas scenario_defs =
  walk_def multiwalk_def multigetnext_def util_spec_def group_varbinds_spec_def
  get_unfinished_walk_oids_spec_def oid_less_def oid_in_def ERRORS_WARN_def ERRORS_STRICT_def
  V2C_def Let_def logged_def bulkwalk_def bulkwalk_fetcher_def bulkget_def py_dict_def
  slice_step_def





subsection \<open>The walk: a faulty agent in \<open>warn\<close> mode\<close>

lemma multiwalk_loop_Faulty_warn:
  assumes "unfinished \<noteq> []"
    and "fetcher ip community (map (\<lambda>u. fst (fst (snd u))) unfinished) port timeout s =
           (Inl FaultySNMPImplementation, s')"
  shows "multiwalk_loop U (Suc fuel) ip community port timeout fetcher ERRORS_WARN R
           unfinished Y trace s =
         \<lparr>events = trace @ [Fetch (map (\<lambda>u. fst (fst (snd u))) unfinished),
                            Warning ip (map (\<lambda>u. fst (fst (snd u))) unfinished)
                              FaultySNMPImplementation],
          outcome = Finished, final = s'\<rparr>"
  using assms by (simp add: Let_def)

text \<open>
  C2, as the code has it. In \<open>warn\<close> mode, when a fetch of the loop raises
  \<open>FaultySNMPImplementation\<close>, the walk logs a warning with the OIDs of that fetch and ends
  at once, for every base. So in every run in \<open>warn\<close> mode a warning, if there is one, is
  the last event of the run and directly follows the fetch that raised: after it nothing
  is fetched and nothing is yielded, and the generator ends without an exception.
\<close>

theorem warn_mode_ends_whole_walk:
  "(unfinished \<noteq> [] \<and>
    fetcher ip community (map (\<lambda>u. fst (fst (snd u))) unfinished) port timeout s =
      (Inl FaultySNMPImplementation, s') \<longrightarrow>
      multiwalk_loop U (Suc fuel) ip community port timeout fetcher ERRORS_WARN R
        unfinished Y trace s =
      \<lparr>events = trace @ [Fetch (map (\<lambda>u. fst (fst (snd u))) unfinished),
                         Warning ip (map (\<lambda>u. fst (fst (snd u))) unfinished)
                           FaultySNMPImplementation],
       outcome = Finished, final = s'\<rparr>) \<and>
   (list_ex is_Warning
      (events (multiwalk U fuel ip community oids port timeout fetcher ERRORS_WARN s)) \<longrightarrow>
      outcome (multiwalk U fuel ip community oids port timeout fetcher ERRORS_WARN s) =
        Finished \<and>
      (\<exists>es fs. events (multiwalk U fuel ip community oids port timeout fetcher ERRORS_WARN s) =
          es @ [Fetch fs, Warning ip fs FaultySNMPImplementation] \<and>
         \<not> list_ex is_Warning es))"
  using multiwalk_loop_Faulty_warn
      [of unfinished fetcher ip community port timeout s s' U fuel R Y trace]
    multiwalk_warn [of U fuel ip community oids port timeout fetcher s]
  by blast

text \<open>
  C2 (amended) at concrete inputs: the walk over 1.2 and 1.3 against the agent that
  repeats 1.2.1, and the last iteration of the walk over 1.2 against the stuck agent.
\<close>

theorem warn_mode_ends_whole_walk_witness:
  "multigetnext stuck_agent ''::1'' ''private'' [[1, 2, 5]] 161 2 3 =
     (Inl FaultySNMPImplementation, 4) \<and>
   multiwalk_loop util_spec (Suc 0) ''::1'' ''private'' 161 2 (multigetnext stuck_agent)
     ERRORS_WARN [[1, 2]] [([1, 2], (([1, 2, 5], 125), True))] {[1, 2, 5]} [] 3 =
     \<lparr>events = [Fetch [[1, 2, 5]], Warning ''::1'' [[1, 2, 5]] FaultySNMPImplementation],
      outcome = Finished, final = 4\<rparr> \<and>
   multiwalk util_spec (Suc (Suc 0)) ''::1'' ''private'' [[1, 2], [1, 3]] 161 2
     (multigetnext two_base_agent) ERRORS_WARN 0 =
     \<lparr>events =
        [Fetch [[1, 2], [1, 3]], Yield ([1, 2, 1], 1), Yield ([1, 3, 1], 2),
         Fetch [[1, 2, 1], [1, 3, 1]],
         Warning ''::1'' [[1, 2, 1], [1, 3, 1]] FaultySNMPImplementation],
      outcome = Finished, final = 2\<rparr>"
  using warn_mode_ends_whole_walk
    [where unfinished = "[([1, 2], (([1, 2, 5], 125), True))]"
       and fetcher = "multigetnext stuck_agent" and ip = "''::1''"
       and community = "''private''" and port = 161 and timeout = 2 and s = 3 and s' = 4
       and U = util_spec and fuel = 0 and R = "[[1, 2]]" and Y = "{[1, 2, 5]}"
       and trace = "[]" and oids = "[[1, 2]]"]
  by (simp add: scenario_defs stuck_agent_def two_base_agent_def)

text \<open>
  C2 as stated fails. Two bases, 1.2 and 1.3, are walked in \<open>warn\<close> mode. The second fetch
  asks for the successors of 1.2.1 and 1.3.1, so both bases are unfinished; the agent
  repeats 1.2.1 and answers 1.3.2 for the other base. The walk warns and ends: 1.3.2 is
  never yielded and no third request is sent.
\<close>

theorem warn_mode_drops_unfinished_base:
  "multiwalk util_spec (Suc (Suc (Suc (Suc (Suc 0))))) ''::1'' ''private'' [[1, 2], [1, 3]]
     161 2 (multigetnext (logged two_base_agent)) ERRORS_WARN ([], 0) =
   \<lparr>events =
      [Fetch [[1, 2], [1, 3]], Yield ([1, 2, 1], 1), Yield ([1, 3, 1], 2),
       Fetch [[1, 2, 1], [1, 3, 1]],
       Warning ''::1'' [[1, 2, 1], [1, 3, 1]] FaultySNMPImplementation],
    outcome = Finished,
    final =
      ([(\<lparr>call_ip = ''::1'', call_port = 161,
          call_packet = \<lparr>pkt_version = 1, pkt_community = ''private'',
                         pkt_pdu = GetNextRequest 0 [[1, 2], [1, 3]]\<rparr>,
          call_timeout = 2\<rparr>,
         Inr \<lparr>request_id = 234, varbinds = [([1, 2, 1], 1), ([1, 3, 1], 2)]\<rparr>),
        (\<lparr>call_ip = ''::1'', call_port = 161,
          call_packet = \<lparr>pkt_version = 1, pkt_community = ''private'',
                         pkt_pdu = GetNextRequest 1 [[1, 2, 1], [1, 3, 1]]\<rparr>,
          call_timeout = 2\<rparr>,
         Inr \<lparr>request_id = 234, varbinds = [([1, 2, 1], 1), ([1, 3, 2], 3)]\<rparr>)],
       2)\<rparr>"
  by (simp add: scenario_defs two_base_agent_def)

subsection \<open>The walk: \<open>NoSuchOID\<close> on the first fetch\<close>

text \<open>
  C3 on the code: the first fetch of \<open>multiwalk\<close> stands outside the \<^verbatim>\<open>try\<close>. When the
  very first fetch of a \<open>bulkwalk\<close> or of a \<open>walk\<close> raises \<open>NoSuchOID\<close>, the exception
  leaves the generator: the run does not end as an empty stream without an error.
\<close>

theorem first_fetch_NoSuchOID_is_raised:
  "bulkwalk util_spec fuel end_agent ''::1'' ''private'' (OidList [[1, 2]]) 10 161 0 =
     \<lparr>events = [Fetch [[1, 2]]], outcome = Raised NoSuchOID, final = 1\<rparr> \<and>
   walk util_spec fuel end_agent ''::1'' ''private'' [1, 2] 161 2 ERRORS_STRICT 0 =
     \<lparr>events = [Fetch [[1, 2]]], outcome = Raised NoSuchOID, final = 1\<rparr>"
  by (simp add: scenario_defs end_agent_def)

subsection \<open>The walk: an agent stuck on one OID\<close>

lemma stuck_walk_run:
  "walk util_spec (Suc (Suc (Suc n))) (logged stuck_agent) ''::1'' ''private'' [1, 2] 161 2
     ERRORS_WARN ([], 0) =
   \<lparr>events =
      [Fetch [[1, 2]], Yield ([1, 2, 3], 123),
       Fetch [[1, 2, 3]], Yield ([1, 2, 4], 124),
       Fetch [[1, 2, 4]], Yield ([1, 2, 5], 125),
       Fetch [[1, 2, 5]], Warning ''::1'' [[1, 2, 5]] FaultySNMPImplementation],
    outcome = Finished,
    final =
      ([(\<lparr>call_ip = ''::1'', call_port = 161,
          call_packet = \<lparr>pkt_version = 1, pkt_community = ''private'',
                         pkt_pdu = GetNextRequest 0 [[1, 2]]\<rparr>,
          call_timeout = 2\<rparr>, Inr \<lparr>request_id = 234, varbinds = [([1, 2, 3], 123)]\<rparr>),
        (\<lparr>call_ip = ''::1'', call_port = 161,
          call_packet = \<lparr>pkt_version = 1, pkt_community = ''private'',
                         pkt_pdu = GetNextRequest 1 [[1, 2, 3]]\<rparr>,
          call_timeout = 2\<rparr>, Inr \<lparr>request_id = 234, varbinds = [([1, 2, 4], 124)]\<rparr>),
        (\<lparr>call_ip = ''::1'', call_port = 161,
          call_packet = \<lparr>pkt_version = 1, pkt_community = ''private'',
                         pkt_pdu = GetNextRequest 2 [[1, 2, 4]]\<rparr>,
          call_timeout = 2\<rparr>, Inr \<lparr>request_id = 234, varbinds = [([1, 2, 5], 125)]\<rparr>),
        (\<lparr>call_ip = ''::1'', call_port = 161,
          call_packet = \<lparr>pkt_version = 1, pkt_community = ''private'',
                         pkt_pdu = GetNextRequest 3 [[1, 2, 5]]\<rparr>,
          call_timeout = 2\<rparr>, Inr \<lparr>request_id = 234, varbinds = [([1, 2, 5], 125)]\<rparr>)],
       4)\<rparr>"
  by (simp add: scenario_defs stuck_agent_def)

text \<open>
  C8: the walk over the single base 1.2 in \<open>warn\<close> mode, against the agent whose replies
  are 1.2.3, 1.2.4, 1.2.5 and then 1.2.5 for ever, ends whenever the loop may run three
  times or more: the generator is exhausted without an exception, exactly the varbinds of
  1.2.3, 1.2.4 and 1.2.5 are yielded, one warning is logged, the fetcher is called four
  times and four datagrams are sent.
\<close>

theorem stuck_walk_terminates:
  "outcome (walk util_spec (Suc (Suc (Suc n))) (logged stuck_agent) ''::1'' ''private'' [1, 2]
     161 2 ERRORS_WARN ([], 0)) = Finished \<and>
   yields (events (walk util_spec (Suc (Suc (Suc n))) (logged stuck_agent) ''::1'' ''private''
     [1, 2] 161 2 ERRORS_WARN ([], 0))) =
     [([1, 2, 3], 123), ([1, 2, 4], 124), ([1, 2, 5], 125)] \<and>
   fetches (events (walk util_spec (Suc (Suc (Suc n))) (logged stuck_agent) ''::1'' ''private''
     [1, 2] 161 2 ERRORS_WARN ([], 0))) =
     [[[1, 2]], [[1, 2, 3]], [[1, 2, 4]], [[1, 2, 5]]] \<and>
   length (filter is_Warning (events (walk util_spec (Suc (Suc (Suc n))) (logged stuck_agent)
     ''::1'' ''private'' [1, 2] 161 2 ERRORS_WARN ([], 0)))) = 1 \<and>
   length (fst (final (walk util_spec (Suc (Suc (Suc n))) (logged stuck_agent) ''::1''
     ''private'' [1, 2] 161 2 ERRORS_WARN ([], 0)))) = 4"
  unfolding stuck_walk_run by simp

subsection \<open>\<open>bulkwalk\<close>: strict mode and the default timeout\<close>

text \<open>
  C10: \<open>bulkwalk\<close> on a list of OIDs is \<open>multiwalk\<close> with the bulk fetcher, the timeout 2
  and the error mode \<open>strict\<close>. So no run of \<open>bulkwalk\<close> logs a warning; every datagram a
  \<open>bulkwalk\<close> sends is sent with the timeout 2, whatever the arguments of \<open>bulkwalk\<close>; and
  when an exchange with the agent has raised \<open>FaultySNMPImplementation\<close> (the only place
  where a \<open>bulkwalk\<close> can meet that exception), the exception leaves the generator.
\<close>

theorem bulkwalk_strict_with_default_timeout:
  "bulkwalk U fuel N ip community (OidList l) bulk_size port s =
     multiwalk U fuel ip community l port 2 (bulkwalk_fetcher N bulk_size) ERRORS_STRICT s \<and>
   \<not> list_ex is_Warning (events (bulkwalk U fuel N ip community oids bulk_size port s)) \<and>
   (\<forall>c \<in> set (fst (final (bulkwalk U fuel (logged N) ip community oids bulk_size port ([], s)))).
      call_timeout (fst c) = 2) \<and>
   ((\<exists>c. (c, Inl FaultySNMPImplementation) \<in>
          set (fst (final (bulkwalk U fuel (logged N) ip community oids bulk_size port ([], s))))) \<longrightarrow>
    outcome (bulkwalk U fuel (logged N) ip community oids bulk_size port ([], s)) =
      Raised FaultySNMPImplementation)"
proof -
  have strict: "ERRORS_STRICT \<noteq> ERRORS_WARN"
    by (simp add: ERRORS_STRICT_def ERRORS_WARN_def)
  show ?thesis
  proof (cases oids)
    case (OidList l')
    with multiwalk_no_warn [OF strict] multiwalk_bulk_log [of U fuel ip community l' port 2 N bulk_size s]
    show ?thesis
      by (simp add: bulkwalk_def)
  next
    case NotAList
    then show ?thesis by (simp add: bulkwalk_def)
  qed
qed

text \<open>
  C10 at a concrete input: the second exchange raises \<open>FaultySNMPImplementation\<close>, which
  leaves the \<open>bulkwalk\<close>; both datagrams were sent with the timeout 2.
\<close>

theorem bulkwalk_strict_with_default_timeout_witness:
  "outcome (bulkwalk util_spec (Suc (Suc 0)) (logged faulty_bulk_agent) ''::1'' ''private''
     (OidList [[1, 2]]) 10 161 ([], 0)) = Raised FaultySNMPImplementation \<and>
   events (bulkwalk util_spec (Suc (Suc 0)) (logged faulty_bulk_agent) ''::1'' ''private''
     (OidList [[1, 2]]) 10 161 ([], 0)) =
     [Fetch [[1, 2]], Yield ([1, 2, 1], 1), Fetch [[1, 2, 1]]] \<and>
   map (\<lambda>c. (call_timeout (fst c), snd c))
     (fst (final (bulkwalk util_spec (Suc (Suc 0)) (logged faulty_bulk_agent) ''::1''
        ''private'' (OidList [[1, 2]]) 10 161 ([], 0)))) =
     [(2, Inr \<lparr>request_id = 0, varbinds = [([1, 2, 1], 1)]\<rparr>),
      (2, Inl FaultySNMPImplementation)]"
  using bulkwalk_strict_with_default_timeout
    [where U = util_spec and fuel = "Suc (Suc 0)" and N = faulty_bulk_agent
       and ip = "''::1''" and community = "''private''" and l = "[[1, 2]]"
       and oids = "OidList [[1, 2]]" and bulk_size = 10 and port = 161 and s = 0]
  by (simp add: scenario_defs faulty_bulk_agent_def)

end
